theory Spec2Isabelle
  imports Complex_Main "HOL-Library.Signed_Division"
begin

section \<open>The light cache of Eevee: data model\<close>

text \<open>
  The embedding follows \<^verbatim>\<open>eevee_lightcache.c\<close>. A C \<^verbatim>\<open>int\<close> is an integer of type
  \<open>int\<close> in the range of 32 bits: sums and products are reduced to that range by
  \<open>wrap32\<close>, the quotient and the remainder are C's truncating ones and trap where the
  processor does. A \<^verbatim>\<open>float\<close> is the real number it stands for, or \<open>None\<close> when it is
  not finite; a float whose value is a whole number is passed as that \<open>int\<close>. The
  conversions and the division round to single precision, to nearest, ties to even.
\<close>

subsection \<open>Machine arithmetic\<close>

datatype error =
  IntDivisionByZero
  | IntDivisionOverflow
  | AssertFailed
  | NullPointer
  | OutOfBounds


















subsection \<open>Sizing the irradiance pool\<close>










subsection \<open>The cache and its validation\<close>

text \<open>
  A GPU texture array, as far as the cache looks at it: its three dimensions.
  \<^verbatim>\<open>GPU_texture_width\<close>, \<^verbatim>\<open>GPU_texture_height\<close> and \<^verbatim>\<open>GPU_texture_layers\<close>
  belong to the GPU module and read them back.
\<close>

record GPUTexture =
  tex_w :: int
  tex_h :: int
  tex_d :: int

definition GPU_texture_width :: "GPUTexture \<Rightarrow> int" where
  "GPU_texture_width t = tex_w t"

definition GPU_texture_height :: "GPUTexture \<Rightarrow> int" where
  "GPU_texture_height t = tex_h t"

definition GPU_texture_layers :: "GPUTexture \<Rightarrow> int" where
  "GPU_texture_layers t = tex_d t"

text \<open>
  The status bits of the cache. Their numeric values are declared in a header; the
  code only combines them with \<^verbatim>\<open>|=\<close>, \<^verbatim>\<open>&= ~\<close> and \<^verbatim>\<open>&\<close>, so the bit mask is the
  set of the bits that are on.
\<close>

datatype lightcache_flag =
  LIGHTCACHE_BAKED
  | LIGHTCACHE_BAKING
  | LIGHTCACHE_CUBE_READY
  | LIGHTCACHE_GRID_READY
  | LIGHTCACHE_UPDATE_CUBE
  | LIGHTCACHE_UPDATE_GRID
  | LIGHTCACHE_UPDATE_WORLD

text \<open>Per-grid and per-cube entries of the cache (the fields this file reads or writes).\<close>

record EEVEE_LightGrid =
  resolution :: "int \<times> int \<times> int"
  offset :: int
  level_bias :: real

record EEVEE_LightProbe =
  position :: "real \<times> real \<times> real"

record EEVEE_LightCache =
  flag :: "lightcache_flag set"
  cube_count :: int
  grid_count :: int
  vis_res :: int
  grid_tx :: GPUTexture
  cube_tx :: GPUTexture
  grid_data :: "EEVEE_LightGrid list"
  cube_data :: "EEVEE_LightProbe list"

text \<open>\<^verbatim>\<open>EEVEE_lightcache_validate\<close> (lines 156-175); a null cache is \<open>None\<close>.\<close>

fun EEVEE_lightcache_validate ::
  "EEVEE_LightCache option \<Rightarrow> int \<Rightarrow> int \<Rightarrow> int \<times> int \<times> int \<Rightarrow> bool" where
  "EEVEE_lightcache_validate None cube_count' cube_res irr_size = False"
| "EEVEE_lightcache_validate (Some light_cache) cube_count' cube_res (irr0, irr1, irr2) =
     (if irr0 = GPU_texture_width (grid_tx light_cache) \<and>
         irr1 = GPU_texture_height (grid_tx light_cache) \<and>
         irr2 = GPU_texture_layers (grid_tx light_cache)
      then
        (if cube_res = GPU_texture_width (cube_tx light_cache) \<and>
            cube_count' = GPU_texture_layers (cube_tx light_cache)
         then True else False)
      else False)"

subsection \<open>Light probes of the scene\<close>

datatype lightprobe_type = LIGHTPROBE_TYPE_CUBE | LIGHTPROBE_TYPE_PLANAR | LIGHTPROBE_TYPE_GRID


subsection \<open>Cell indexing\<close>









subsection \<open>The visiting order, as a list\<close>

text \<open>
  Vocabulary for the proofs about \<^verbatim>\<open>compute_cell_id\<close>, over the naturals: the local
  cell of a linear index, the test the two nested conditions of the inner loop make
  at a level, the list of results in the order the sweep reaches them, and a result
  as the \<^verbatim>\<open>int\<close>s the code returns.
\<close>

definition grid_loc :: "nat \<times> nat \<times> nat \<Rightarrow> nat \<Rightarrow> nat \<times> nat \<times> nat" where
  "grid_loc r i = (case r of (r0, r1, r2) \<Rightarrow> (i div (r2 * r1), (i div r2) mod r1, i mod r2))"






section \<open>Properties of the machine arithmetic\<close>













section \<open>Properties of the pool size\<close>


















section \<open>Validating the cache\<close>

text \<open>
  Claim C2. \<^verbatim>\<open>EEVEE_lightcache_validate\<close> returns true exactly when the cache exists
  and the three irradiance sizes equal the width, height and layer count of the grid
  texture, the cube resolution equals the width of the cube texture, and the cube
  count equals its layer count; a cache in which any one of the five differs is not
  valid.
\<close>

theorem EEVEE_lightcache_validate_iff:
  "(EEVEE_lightcache_validate cache cube_count' cube_res (irr0, irr1, irr2) =
     (\<exists>lc. cache = Some lc
        \<and> irr0 = GPU_texture_width (grid_tx lc)
        \<and> irr1 = GPU_texture_height (grid_tx lc)
        \<and> irr2 = GPU_texture_layers (grid_tx lc)
        \<and> cube_res = GPU_texture_width (cube_tx lc)
        \<and> cube_count' = GPU_texture_layers (cube_tx lc)))
   \<and> (\<forall>lc. irr0 \<noteq> GPU_texture_width (grid_tx lc) \<or> irr1 \<noteq> GPU_texture_height (grid_tx lc)
          \<or> irr2 \<noteq> GPU_texture_layers (grid_tx lc) \<or> cube_res \<noteq> GPU_texture_width (cube_tx lc)
          \<or> cube_count' \<noteq> GPU_texture_layers (cube_tx lc)
        \<longrightarrow> \<not> EEVEE_lightcache_validate (Some lc) cube_count' cube_res (irr0, irr1, irr2))"
proof (intro conjI allI impI)
  show "EEVEE_lightcache_validate cache cube_count' cube_res (irr0, irr1, irr2) =
     (\<exists>lc. cache = Some lc
        \<and> irr0 = GPU_texture_width (grid_tx lc)
        \<and> irr1 = GPU_texture_height (grid_tx lc)
        \<and> irr2 = GPU_texture_layers (grid_tx lc)
        \<and> cube_res = GPU_texture_width (cube_tx lc)
        \<and> cube_count' = GPU_texture_layers (cube_tx lc))"
    by (cases cache) auto
next
  fix lc :: EEVEE_LightCache
  assume "irr0 \<noteq> GPU_texture_width (grid_tx lc) \<or> irr1 \<noteq> GPU_texture_height (grid_tx lc)
          \<or> irr2 \<noteq> GPU_texture_layers (grid_tx lc) \<or> cube_res \<noteq> GPU_texture_width (cube_tx lc)
          \<or> cube_count' \<noteq> GPU_texture_layers (cube_tx lc)"
  then show "\<not> EEVEE_lightcache_validate (Some lc) cube_count' cube_res (irr0, irr1, irr2)"
    by auto
qed

theorem EEVEE_lightcache_validate_iff_witness:
  "EEVEE_lightcache_validate
     (Some \<lparr>flag = {LIGHTCACHE_BAKED}, cube_count = 3, grid_count = 2, vis_res = 8,
            grid_tx = \<lparr>tex_w = 64, tex_h = 32, tex_d = 9\<rparr>,
            cube_tx = \<lparr>tex_w = 128, tex_h = 128, tex_d = 3\<rparr>,
            grid_data = [], cube_data = []\<rparr>) 3 128 (64, 32, 9)
   \<and> \<not> EEVEE_lightcache_validate
     (Some \<lparr>flag = {LIGHTCACHE_BAKED}, cube_count = 3, grid_count = 2, vis_res = 8,
            grid_tx = \<lparr>tex_w = 64, tex_h = 32, tex_d = 9\<rparr>,
            cube_tx = \<lparr>tex_w = 128, tex_h = 128, tex_d = 3\<rparr>,
            grid_data = [], cube_data = []\<rparr>) 4 128 (64, 32, 9)
   \<and> \<not> EEVEE_lightcache_validate None 3 128 (64, 32, 9)"
proof -
  let ?c = "\<lparr>flag = {LIGHTCACHE_BAKED}, cube_count = 3, grid_count = 2, vis_res = 8,
            grid_tx = \<lparr>tex_w = 64, tex_h = 32, tex_d = 9\<rparr>,
            cube_tx = \<lparr>tex_w = 128, tex_h = 128, tex_d = 3\<rparr>,
            grid_data = [], cube_data = []\<rparr>"
  have "EEVEE_lightcache_validate (Some ?c) 3 128 (64, 32, 9)"
    using EEVEE_lightcache_validate_iff [of "Some ?c" 3 128 64 32 9]
    by (simp add: GPU_texture_width_def GPU_texture_height_def GPU_texture_layers_def)
  moreover have "\<not> EEVEE_lightcache_validate (Some ?c) 4 128 (64, 32, 9)"
    using EEVEE_lightcache_validate_iff [of "Some ?c" 4 128 64 32 9]
    by (simp add: GPU_texture_width_def GPU_texture_height_def GPU_texture_layers_def)
  moreover have "\<not> EEVEE_lightcache_validate None 3 128 (64, 32, 9)"
    using EEVEE_lightcache_validate_iff [of None 3 128 64 32 9] by simp
  ultimately show ?thesis by blast
qed

section \<open>Cell indexing: the sweep is a bijection\<close>

lemma grid_loc_zero [simp]: "grid_loc r 0 = (0, 0, 0)"
  by (cases r) (simp add: grid_loc_def)





























end
